theory Spec2Isabelle
  imports Main
begin

section \<open>Data model of model/sign.go\<close>

text \<open>
  The user-visible messages of the source are Chinese string literals.  Each literal is
  one constructor here; the line of \<^verbatim>\<open>model/sign.go\<close> that holds it is given.
  \<^item> \<open>MsgNone\<close>: the empty string (line 80);
  \<^item> \<open>MsgSignDisabled\<close>: "sign-in is not enabled" (lines 47 and 230);
  \<^item> \<open>MsgGetUserFailed\<close>: "failed to fetch the user record" (line 53);
  \<^item> \<open>MsgGroupNotAllowed\<close>: "your user group may not sign in" (lines 58 and 242);
  \<^item> \<open>MsgNewUsersOnly\<close>: "sign-in is for newly registered users only" (lines 64, 249);
  \<^item> \<open>MsgWindowExpired n\<close>: "sign-in is limited to users within n days of
    registration", the \<^verbatim>\<open>Sprintf\<close> of line 68 with its argument;
  \<^item> \<open>MsgSignCheckFailed\<close>: "failed to check the sign-in status" (line 74);
  \<^item> \<open>MsgAlreadySigned\<close>: "already signed in today" (line 77);
  \<^item> \<open>MsgSignSuccess q\<close>: "signed in, received q", the \<^verbatim>\<open>Sprintf\<close> of line 138;
  \<^item> \<open>MsgSignContent q\<close>: "sign-in received q", the log content of line 128.
\<close>

datatype msg =
    MsgNone
  | MsgSignDisabled
  | MsgGetUserFailed
  | MsgGroupNotAllowed
  | MsgNewUsersOnly
  | MsgWindowExpired int
  | MsgSignCheckFailed
  | MsgAlreadySigned
  | MsgSignSuccess int
  | MsgSignContent int

text \<open>
  Errors are values.  \<open>StorageFault n\<close> is a failure of the storage layer (the number
  stands for its text), \<open>RecordNotFound\<close> the lookup of a user that does not exist, and
  \<open>IncreaseQuotaFailed e\<close> the error that \<^verbatim>\<open>DoSign\<close> builds at line 119 around \<open>e\<close>.
\<close>

datatype error =
    StorageFault nat
  | RecordNotFound
  | IncreaseQuotaFailed error

text \<open>Kinds of audit record; \<^verbatim>\<open>sign.go\<close> only names the kind \<^verbatim>\<open>LogTypeSign\<close>.\<close>

datatype log_type = LogTypeSign | LogTypeOther nat

record User =
  User_Id :: int
  Username :: string
  Group :: string
  CreatedTime :: int
  Quota :: int

record Log =
  UserId :: int
  Log_Username :: string
  CreatedAt :: int
  Log_Type :: log_type
  Content :: msg
  Log_Quota :: int

record SignResult =
  Success :: bool
  Message :: msg
  Result_Quota :: int

record SignStatus =
  Date :: string
  Signed :: bool

record SignInfo =
  Enabled :: bool
  QuotaPerSign :: int
  Info_SignInDays :: int
  SignedToday :: bool
  CanSign :: bool
  Info_Message :: msg
  RemainingDays :: int
  TotalSignDays :: int
  SignList :: "SignStatus list"

text \<open>
  What an operation reads from outside the stores: the two configuration globals of
  package \<^verbatim>\<open>common\<close>, the group policy of package \<^verbatim>\<open>ratio_setting\<close>, the clock and the
  server's time zone.  An operation is evaluated at one instant \<open>Now\<close> (epoch seconds); the
  zone is a fixed offset \<open>Offset\<close> in seconds east of UTC, so a calendar day has 86400
  seconds (a zone with transitions is the subject of a section of its own below).
  Go's \<^verbatim>\<open>int\<close> and \<^verbatim>\<open>int64\<close> are modelled as unbounded integers: the values are
  timestamps, day counts and quotas, far from 64-bit overflow; the statements on the
  length of the calendar carry that range as a hypothesis.
\<close>

record env =
  QuotaForSign :: int
  SignInDays :: int
  IsGroupSignEnabled :: "string \<Rightarrow> bool"
  Now :: int
  Offset :: int

text \<open>
  The stores: the user table, the append-only audit log, the system diagnostic log, and
  a script of storage faults.  Every storage operation takes the head of the script:
  \<open>Some e\<close> makes the operation fail with \<open>e\<close> and change nothing, \<open>None\<close> (or an empty
  script) lets it run.  Any pattern of failures is a script.
\<close>

datatype syslog_entry = FailedToRecordSignLog error

record store =
  users :: "int \<rightharpoonup> User"
  logs :: "Log list"
  syslog :: "syslog_entry list"
  faults :: "error option list"

section \<open>Time and calendar\<close>

text \<open>Go's integer division truncates toward zero; HOL's \<open>div\<close> rounds down.\<close>

definition go_div :: "int \<Rightarrow> int \<Rightarrow> int" where
  "go_div a b = (if (a < 0) = (b < 0) then \<bar>a\<bar> div \<bar>b\<bar> else - (\<bar>a\<bar> div \<bar>b\<bar>))"

text \<open>
  A \<^verbatim>\<open>time.Time\<close> is modelled by its epoch second.  The source compares instants that
  have no nanoseconds, but for the fallback start \<^verbatim>\<open>time.Now().AddDate(0, 0, -30)\<close> and the
  deadline derived from it; these are only ever compared with whole seconds, in the
  direction in which dropping the nanoseconds changes no outcome.

  The local calendar day (days since 1970-01-01) of an instant, and its midnight, in the
  zone of the \<open>env\<close>: a fixed offset.
\<close>

definition local_day :: "env \<Rightarrow> int \<Rightarrow> int" where
  "local_day e t = (t + Offset e) div 86400"

definition midnight :: "env \<Rightarrow> int \<Rightarrow> int" where
  "midnight e d = d * 86400 - Offset e"

text \<open>\<^verbatim>\<open>t.AddDate(0, 0, n)\<close>: the same wall-clock time \<open>n\<close> calendar days later, which at
  a fixed offset is \<open>n\<close> times 86400 seconds later.\<close>

definition AddDate_days :: "int \<Rightarrow> int \<Rightarrow> int" where
  "AddDate_days t n = t + n * 86400"

text \<open>
  \<^verbatim>\<open>Format("2006-01-02")\<close> of Go's \<^verbatim>\<open>time\<close> package: the proleptic Gregorian date of
  a day number, the year padded to four digits, month and day to two.
\<close>

definition civil_from_days :: "int \<Rightarrow> int \<times> int \<times> int" where
  "civil_from_days d =
     (let z = d + 719468;
          era = z div 146097;
          doe = z mod 146097;
          yoe = (doe - doe div 1460 + doe div 36524 - doe div 146096) div 365;
          y = yoe + era * 400;
          doy = doe - (365 * yoe + yoe div 4 - yoe div 100);
          mp = (5 * doy + 2) div 153;
          dd = doy - (153 * mp + 2) div 5 + 1;
          m = (if mp < 10 then mp + 3 else mp - 9)
      in (if m \<le> 2 then y + 1 else y, m, dd))"

definition digit :: "nat \<Rightarrow> char" where
  "digit n = ''0123456789'' ! (n mod 10)"

fun decimal :: "nat \<Rightarrow> string" where
  "decimal n = (if n < 10 then [digit n] else decimal (n div 10) @ [digit n])"

definition pad :: "nat \<Rightarrow> string \<Rightarrow> string" where
  "pad w s = replicate (w - length s) (CHR ''0'') @ s"

definition format_day :: "int \<Rightarrow> string" where
  "format_day d =
     (case civil_from_days d of (y, m, dd) \<Rightarrow>
        (if y < 0 then ''-'' else '''') @ pad 4 (decimal (nat \<bar>y\<bar>))
        @ ''-'' @ pad 2 (decimal (nat m)) @ ''-'' @ pad 2 (decimal (nat dd)))"

definition Format_date :: "env \<Rightarrow> int \<Rightarrow> string" where
  "Format_date e t = format_day (local_day e t)"

text \<open>Lines 27-40.  The nanoseconds of \<^verbatim>\<open>GetTodayEndTimestamp\<close> are dropped by \<^verbatim>\<open>Unix()\<close>.\<close>

definition GetTodayStartTimestamp :: "env \<Rightarrow> int" where
  "GetTodayStartTimestamp e = midnight e (local_day e (Now e))"

definition GetTodayEndTimestamp :: "env \<Rightarrow> int" where
  "GetTodayEndTimestamp e = midnight e (local_day e (Now e)) + (23 * 3600 + 59 * 60 + 59)"

section \<open>The stores' operations\<close>

definition next_fault :: "store \<Rightarrow> error option \<times> store" where
  "next_fault s = (case faults s of [] \<Rightarrow> (None, s) | f # fs \<Rightarrow> (f, s\<lparr>faults := fs\<rparr>))"

text \<open>
  Modelled from the spec: \<^verbatim>\<open>GetUserById\<close> of model/user.go is not among the sources.
  The spec's user store has \<open>GetUser(id)\<close> giving the user's record; the lookup fails on
  a storage fault and for a user that is not stored.
\<close>

definition GetUserById :: "int \<Rightarrow> store \<Rightarrow> (error + User) \<times> store" where
  "GetUserById userId s =
     (case next_fault s of
        (Some e, s') \<Rightarrow> (Inl e, s')
      | (None, s') \<Rightarrow>
          (case users s' userId of
             None \<Rightarrow> (Inl RecordNotFound, s')
           | Some u \<Rightarrow> (Inr u, s')))"

text \<open>
  Modelled from the spec: \<^verbatim>\<open>GetUsernameById\<close> of model/user.go is not among the
  sources.  It resolves the display name, or fails as the user lookup does.
\<close>

definition GetUsernameById :: "int \<Rightarrow> store \<Rightarrow> (error + string) \<times> store" where
  "GetUsernameById userId s =
     (case next_fault s of
        (Some e, s') \<Rightarrow> (Inl e, s')
      | (None, s') \<Rightarrow>
          (case users s' userId of
             None \<Rightarrow> (Inl RecordNotFound, s')
           | Some u \<Rightarrow> (Inr (Username u), s')))"

text \<open>
  Modelled from the spec: \<^verbatim>\<open>IncreaseUserQuota\<close> of model/user.go is not among the
  sources.  The spec's \<open>IncreaseBalance(id, amount)\<close> adds the amount to the user's
  balance or returns an error; an update that matches no row changes nothing.
\<close>

definition IncreaseUserQuota :: "int \<Rightarrow> int \<Rightarrow> store \<Rightarrow> error option \<times> store" where
  "IncreaseUserQuota userId quota s =
     (case next_fault s of
        (Some e, s') \<Rightarrow> (Some e, s')
      | (None, s') \<Rightarrow>
          (case users s' userId of
             None \<Rightarrow> (None, s')
           | Some u \<Rightarrow> (None, s'\<lparr>users := (users s')(userId \<mapsto> u\<lparr>Quota := Quota u + quota\<rparr>)\<rparr>)))"

text \<open>
  Modelled from the spec: the audit store \<^verbatim>\<open>LOG_DB\<close> is not among the sources.  The
  three queries that \<^verbatim>\<open>sign.go\<close> makes are a count and a find over the records that
  satisfy the \<^verbatim>\<open>Where\<close> clause, and the append of one record.
\<close>

definition LOG_DB_Count :: "(Log \<Rightarrow> bool) \<Rightarrow> store \<Rightarrow> (error + int) \<times> store" where
  "LOG_DB_Count wh s =
     (case next_fault s of
        (Some e, s') \<Rightarrow> (Inl e, s')
      | (None, s') \<Rightarrow> (Inr (int (length (filter wh (logs s')))), s'))"

definition LOG_DB_Find :: "(Log \<Rightarrow> bool) \<Rightarrow> store \<Rightarrow> (error + Log list) \<times> store" where
  "LOG_DB_Find wh s =
     (case next_fault s of
        (Some e, s') \<Rightarrow> (Inl e, s')
      | (None, s') \<Rightarrow> (Inr (filter wh (logs s')), s'))"

definition LOG_DB_Create :: "Log \<Rightarrow> store \<Rightarrow> error option \<times> store" where
  "LOG_DB_Create l s =
     (case next_fault s of
        (Some e, s') \<Rightarrow> (Some e, s')
      | (None, s') \<Rightarrow> (None, s'\<lparr>logs := logs s' @ [l]\<rparr>))"

text \<open>Modelled from the spec: \<^verbatim>\<open>common.SysLog\<close> appends to the system diagnostic log.\<close>

definition SysLog :: "syslog_entry \<Rightarrow> store \<Rightarrow> store" where
  "SysLog x s = s\<lparr>syslog := syslog s @ [x]\<rparr>"

section \<open>model/sign.go\<close>

text \<open>Lines 84-98.\<close>

definition HasUserSignedToday :: "env \<Rightarrow> int \<Rightarrow> store \<Rightarrow> (error + bool) \<times> store" where
  "HasUserSignedToday e userId s =
     (let todayStart = GetTodayStartTimestamp e;
          todayEnd = GetTodayEndTimestamp e
      in case LOG_DB_Count
                (\<lambda>l. UserId l = userId \<and> Log_Type l = LogTypeSign
                      \<and> CreatedAt l \<ge> todayStart \<and> CreatedAt l \<le> todayEnd) s of
           (Inl err, s') \<Rightarrow> (Inl err, s')
         | (Inr count, s') \<Rightarrow> (Inr (count > 0), s'))"

text \<open>Lines 44-81.\<close>

definition CheckUserSignEligibility :: "env \<Rightarrow> int \<Rightarrow> store \<Rightarrow> (bool \<times> msg) \<times> store" where
  "CheckUserSignEligibility e userId s =
     (if QuotaForSign e \<le> 0 then ((False, MsgSignDisabled), s)
      else case GetUserById userId s of
          (Inl err, s1) \<Rightarrow> ((False, MsgGetUserFailed), s1)
        | (Inr user, s1) \<Rightarrow>
            if \<not> IsGroupSignEnabled e (Group user) then ((False, MsgGroupNotAllowed), s1)
            else if CreatedTime user \<le> 0 then ((False, MsgNewUsersOnly), s1)
            else let registeredDays = go_div (Now e - CreatedTime user) (24 * 60 * 60)
              in if registeredDays \<ge> SignInDays e
                 then ((False, MsgWindowExpired (SignInDays e)), s1)
                 else (case HasUserSignedToday e userId s1 of
                     (Inl err, s2) \<Rightarrow> ((False, MsgSignCheckFailed), s2)
                   | (Inr hasSignedToday, s2) \<Rightarrow>
                       if hasSignedToday then ((False, MsgAlreadySigned), s2)
                       else ((True, MsgNone), s2)))"

text \<open>Lines 101-141.  The error of \<^verbatim>\<open>GetUsernameById\<close> is discarded (line 113).\<close>

definition DoSign :: "env \<Rightarrow> int \<Rightarrow> store \<Rightarrow> (error + SignResult) \<times> store" where
  "DoSign e userId s =
     (case CheckUserSignEligibility e userId s of
        ((eligible, reason), s1) \<Rightarrow>
          if \<not> eligible
          then (Inr \<lparr>Success = False, Message = reason, Result_Quota = 0\<rparr>, s1)
          else (case GetUsernameById userId s1 of
            (r, s2) \<Rightarrow>
              let username = (case r of Inl err \<Rightarrow> [] | Inr n \<Rightarrow> n);
                  quota = QuotaForSign e
              in (case IncreaseUserQuota userId quota s2 of
                  (Some err, s3) \<Rightarrow> (Inl (IncreaseQuotaFailed err), s3)
                | (None, s3) \<Rightarrow>
                    let log = \<lparr>UserId = userId, Log_Username = username,
                               CreatedAt = Now e, Log_Type = LogTypeSign,
                               Content = MsgSignContent quota, Log_Quota = quota\<rparr>
                    in (case LOG_DB_Create log s3 of
                        (r4, s4) \<Rightarrow>
                          let s5 = (case r4 of
                                      Some err \<Rightarrow> SysLog (FailedToRecordSignLog err) s4
                                    | None \<Rightarrow> s4)
                          in (Inr \<lparr>Success = True, Message = MsgSignSuccess quota,
                                    Result_Quota = quota\<rparr>, s5)))))"

text \<open>
  Lines 184-190: the map of signed dates.  A Go \<^verbatim>\<open>map[string]bool\<close> read at a key it
  does not hold gives \<^verbatim>\<open>false\<close>.
\<close>

fun signedDates_of :: "env \<Rightarrow> Log list \<Rightarrow> (string \<rightharpoonup> bool) \<Rightarrow> (string \<rightharpoonup> bool)" where
  "signedDates_of e [] m = m"
| "signedDates_of e (l # ls) m = signedDates_of e ls (m(Format_date e (CreatedAt l) \<mapsto> True))"

definition map_index :: "(string \<rightharpoonup> bool) \<Rightarrow> string \<Rightarrow> bool" where
  "map_index m k = (case m k of None \<Rightarrow> False | Some b \<Rightarrow> b)"

text \<open>Lines 193-203: the loop that appends one entry per day while the day's midnight is
  not after \<open>endTime\<close>.\<close>

function sign_loop :: "env \<Rightarrow> (string \<rightharpoonup> bool) \<Rightarrow> int \<Rightarrow> int \<Rightarrow> SignStatus list" where
  "sign_loop e signedDates endTime currentDate =
     (if currentDate > endTime then []
      else (let dateStr = Format_date e currentDate
            in \<lparr>Date = dateStr, Signed = map_index signedDates dateStr\<rparr>
               # sign_loop e signedDates endTime (AddDate_days currentDate 1)))"
  by pat_completeness auto
termination
  by (relation "measure (\<lambda>(e, m, endTime, currentDate). nat (endTime - currentDate + 1))")
     (auto simp: AddDate_days_def)

declare sign_loop.simps [simp del]

text \<open>Lines 145-206.\<close>

definition GetUserSignList :: "env \<Rightarrow> int \<Rightarrow> store \<Rightarrow> (error + SignStatus list) \<times> store" where
  "GetUserSignList e userId s =
     (case GetUserById userId s of
        (Inl err, s1) \<Rightarrow> (Inl err, s1)
      | (Inr user, s1) \<Rightarrow>
          let startTime = (if CreatedTime user > 0 then CreatedTime user
                           else AddDate_days (Now e) (- 30));
              endTime0 = midnight e (local_day e (Now e)) + (23 * 3600 + 59 * 60 + 59);
              maxSignDays = SignInDays e;
              signDeadline = AddDate_days startTime maxSignDays;
              endTime = (if signDeadline < endTime0 then signDeadline else endTime0)
          in (case LOG_DB_Find (\<lambda>l. UserId l = userId \<and> Log_Type l = LogTypeSign) s1 of
              (Inl err, s2) \<Rightarrow> (Inl err, s2)
            | (Inr signLogs, s2) \<Rightarrow>
                let signedDates = signedDates_of e signLogs Map.empty;
                    currentDate = midnight e (local_day e startTime)
                in (Inr (sign_loop e signedDates endTime currentDate), s2)))"

text \<open>Lines 222-295.\<close>

definition GetUserSignInfo :: "env \<Rightarrow> int \<Rightarrow> store \<Rightarrow> (error + SignInfo) \<times> store" where
  "GetUserSignInfo e userId s =
     (let info = \<lparr>Enabled = QuotaForSign e > 0, QuotaPerSign = QuotaForSign e,
                  Info_SignInDays = SignInDays e, SignedToday = False, CanSign = False,
                  Info_Message = MsgNone, RemainingDays = 0, TotalSignDays = 0,
                  SignList = []\<rparr>
      in if \<not> Enabled info then (Inr (info\<lparr>Info_Message := MsgSignDisabled\<rparr>), s)
      else case GetUserById userId s of
          (Inl err, s1) \<Rightarrow> (Inl err, s1)
        | (Inr user, s1) \<Rightarrow>
            if \<not> IsGroupSignEnabled e (Group user)
            then (Inr (info\<lparr>Info_Message := MsgGroupNotAllowed, CanSign := False\<rparr>), s1)
            else if CreatedTime user \<le> 0
            then (Inr (info\<lparr>Info_Message := MsgNewUsersOnly, CanSign := False,
                             RemainingDays := 0\<rparr>), s1)
            else
              let registeredDays = go_div (Now e - CreatedTime user) (24 * 60 * 60);
                  remaining = SignInDays e - registeredDays;
                  info1 = info\<lparr>RemainingDays := (if remaining < 0 then 0 else remaining)\<rparr>
              in (case LOG_DB_Count (\<lambda>l. UserId l = userId \<and> Log_Type l = LogTypeSign) s1 of
                  (Inl err, s2) \<Rightarrow> (Inl err, s2)
                | (Inr count, s2) \<Rightarrow>
                    let info2 = info1\<lparr>TotalSignDays := count\<rparr>
                    in (case HasUserSignedToday e userId s2 of
                        (Inl err, s3) \<Rightarrow> (Inl err, s3)
                      | (Inr hasSignedToday, s3) \<Rightarrow>
                          let info3 = info2\<lparr>SignedToday := hasSignedToday\<rparr>
                          in (case GetUserSignList e userId s3 of
                              (Inl err, s4) \<Rightarrow> (Inl err, s4)
                            | (Inr signList, s4) \<Rightarrow>
                                let info4 = info3\<lparr>SignList := signList\<rparr>
                                in (case CheckUserSignEligibility e userId s4 of
                                    ((canSign, reason), s5) \<Rightarrow>
                                      let info5 = info4\<lparr>CanSign := canSign\<rparr>
                                      in (Inr (if \<not> canSign
                                               then info5\<lparr>Info_Message := reason\<rparr>
                                               else info5), s5))))))"

section \<open>Zones with transitions\<close>

text \<open>
  The \<open>env\<close> above has a zone with one fixed offset.  A zone of the tz database has
  transitions (daylight saving).  Here are the functions of Go's \<^verbatim>\<open>time\<close> package that
  \<^verbatim>\<open>GetUserSignList\<close> calls, over a zone given by the offset before its first transition
  and the ascending list of its transitions (instant, offset from then on), and the
  calendar over them.  They follow the library: \<^verbatim>\<open>Location.lookup\<close> gives the offset at an
  instant and the bounds of the period around it (\<open>alpha\<close> and \<open>omega\<close> are the least
  and greatest 64-bit integers); \<^verbatim>\<open>time.Date\<close> reads its arguments as UTC, subtracts the
  offset found there, and looks the offset up a second time at the result when that
  lies outside the period; \<^verbatim>\<open>AddDate(0, 0, n)\<close> is \<^verbatim>\<open>Date\<close> at the local date plus \<open>n\<close>
  days and the local time of day.  A calendar date is its day number since 1970-01-01:
  Go normalises year, month and day + n to the date n days later.
\<close>

record zone =
  First_offset :: int
  Transitions :: "(int \<times> int) list"

definition alpha :: int where
  "alpha = - (2 ^ 63)"

definition omega :: int where
  "omega = 2 ^ 63 - 1"

fun lookup_from :: "int \<Rightarrow> int \<Rightarrow> (int \<times> int) list \<Rightarrow> int \<Rightarrow> int \<times> int \<times> int" where
  "lookup_from off start [] sec = (off, start, omega)"
| "lookup_from off start ((w, off') # tx) sec =
     (if sec < w then (off, start, w) else lookup_from off' w tx sec)"

definition lookup :: "zone \<Rightarrow> int \<Rightarrow> int \<times> int \<times> int" where
  "lookup z sec = lookup_from (First_offset z) alpha (Transitions z) sec"

definition zone_day :: "zone \<Rightarrow> int \<Rightarrow> int" where
  "zone_day z t = (t + fst (lookup z t)) div 86400"

definition zone_clock :: "zone \<Rightarrow> int \<Rightarrow> int" where
  "zone_clock z t = (t + fst (lookup z t)) mod 86400"

definition go_Date :: "zone \<Rightarrow> int \<Rightarrow> int \<Rightarrow> int" where
  "go_Date z d secs =
     (let unix = d * 86400 + secs in
      case lookup z unix of (offset, start, end) \<Rightarrow>
        if offset \<noteq> 0
        then (let utc = unix - offset;
                  offset' = (if utc < start \<or> utc \<ge> end then fst (lookup z utc) else offset)
              in unix - offset')
        else unix)"

definition go_AddDate :: "zone \<Rightarrow> int \<Rightarrow> int \<Rightarrow> int" where
  "go_AddDate z t n = go_Date z (zone_day z t + n) (zone_clock z t)"






section \<open>Auxiliary notions for the statements\<close>

text \<open>\<open>answered n s\<close>: none of the next \<open>n\<close> storage operations on \<open>s\<close> faults.\<close>

definition answered :: "nat \<Rightarrow> store \<Rightarrow> bool" where
  "answered n s = list_all (\<lambda>f. f = None) (take n (faults s))"

text \<open>
  The eligibility policy as an ordered list of checks, each a pair of "this check fails"
  and its reason; the verdict is the reason of the first failing check, or eligibility
  with the empty reason.  A check on the user record cannot fail when the lookup failed.
\<close>

definition first_failure :: "(bool \<times> msg) list \<Rightarrow> bool \<times> msg" where
  "first_failure cs =
     (case find fst cs of None \<Rightarrow> (True, MsgNone) | Some c \<Rightarrow> (False, snd c))"

definition user_fails :: "error + User \<Rightarrow> (User \<Rightarrow> bool) \<Rightarrow> bool" where
  "user_fails r P = (case r of Inl err \<Rightarrow> False | Inr u \<Rightarrow> P u)"

text \<open>
  The six checks as the specification lists them (section 4.2), over the results of the
  user lookup and of the signed-today query that the function makes.
\<close>

definition claimed_checks :: "env \<Rightarrow> int \<Rightarrow> store \<Rightarrow> (bool \<times> msg) list" where
  "claimed_checks e userId s =
     (let r = fst (GetUserById userId s);
          signed = fst (HasUserSignedToday e userId (snd (GetUserById userId s)))
      in [(QuotaForSign e \<le> 0, MsgSignDisabled),
          (isl r, MsgGetUserFailed),
          (user_fails r (\<lambda>u. \<not> IsGroupSignEnabled e (Group u)), MsgGroupNotAllowed),
          (user_fails r (\<lambda>u. CreatedTime u \<le> 0), MsgNewUsersOnly),
          (user_fails r (\<lambda>u. go_div (Now e - CreatedTime u) 86400 \<ge> SignInDays e),
             MsgWindowExpired (SignInDays e)),
          (signed = Inr True, MsgAlreadySigned)])"

text \<open>The same list with the check that the source makes between the fifth and the
  sixth: the signed-today query itself failed.\<close>

definition source_checks :: "env \<Rightarrow> int \<Rightarrow> store \<Rightarrow> (bool \<times> msg) list" where
  "source_checks e userId s =
     (let r = fst (GetUserById userId s);
          signed = fst (HasUserSignedToday e userId (snd (GetUserById userId s)))
      in [(QuotaForSign e \<le> 0, MsgSignDisabled),
          (isl r, MsgGetUserFailed),
          (user_fails r (\<lambda>u. \<not> IsGroupSignEnabled e (Group u)), MsgGroupNotAllowed),
          (user_fails r (\<lambda>u. CreatedTime u \<le> 0), MsgNewUsersOnly),
          (user_fails r (\<lambda>u. go_div (Now e - CreatedTime u) 86400 \<ge> SignInDays e),
             MsgWindowExpired (SignInDays e)),
          (isl signed, MsgSignCheckFailed),
          (signed = Inr True, MsgAlreadySigned)])"

text \<open>The audit records of kind "sign" of a user whose creation time lies in the closed
  interval from today's start to today's end.\<close>

definition signed_today_records :: "env \<Rightarrow> int \<Rightarrow> store \<Rightarrow> Log list" where
  "signed_today_records e userId s =
     filter (\<lambda>l. UserId l = userId \<and> Log_Type l = LogTypeSign
                 \<and> GetTodayStartTimestamp e \<le> CreatedAt l
                 \<and> CreatedAt l \<le> GetTodayEndTimestamp e) (logs s)"

text \<open>
  The calendar's first and last day as the specification gives them (section 4.4): the
  registration day, or 30 days before today without one; today, or the registration day
  plus the window when that is earlier.
\<close>

definition start_date :: "env \<Rightarrow> User \<Rightarrow> int" where
  "start_date e u =
     (if CreatedTime u > 0 then local_day e (CreatedTime u) else local_day e (Now e) - 30)"

definition end_date :: "env \<Rightarrow> User \<Rightarrow> int" where
  "end_date e u = min (local_day e (Now e)) (start_date e u + SignInDays e)"

text \<open>The dates (as formatted strings) on which the audit log holds a "sign" record of
  the user.\<close>

definition sign_dates :: "env \<Rightarrow> int \<Rightarrow> store \<Rightarrow> string set" where
  "sign_dates e userId s =
     set (map (\<lambda>l. Format_date e (CreatedAt l))
            (filter (\<lambda>l. UserId l = userId \<and> Log_Type l = LogTypeSign) (logs s)))"





section \<open>Concrete scenarios\<close>

text \<open>
  The server runs in UTC; it is 2023-11-14 22:13:20 (epoch 1700000000, day 19675); a
  sign-in is worth 1000 and is open for 7 days; only the group \<open>default\<close> may sign in.
  User 1 registered the same day at 08:20:00, user 2 has no registration time.
\<close>

definition env_ex :: env where
  "env_ex = \<lparr>QuotaForSign = 1000, SignInDays = 7,
              IsGroupSignEnabled = (\<lambda>g. g = ''default''),
              Now = 1700000000, Offset = 0\<rparr>"

definition user_new :: User where
  "user_new = \<lparr>User_Id = 1, Username = ''ann'', Group = ''default'',
                CreatedTime = 1699950000, Quota = 5\<rparr>"

definition user_old :: User where
  "user_old = \<lparr>User_Id = 2, Username = ''bob'', Group = ''default'',
                CreatedTime = 0, Quota = 0\<rparr>"

definition store_ex :: store where
  "store_ex = \<lparr>users = [1 \<mapsto> user_new, 2 \<mapsto> user_old], logs = [], syslog = [],
                faults = []\<rparr>"

text \<open>
  An audit log: user 1 signed twice on 2023-11-14 and once on 2023-11-16; on 2023-11-15
  there is a sign record of user 2 and a record of user 1 of another kind.
\<close>

definition sign_log :: "int \<Rightarrow> int \<Rightarrow> Log" where
  "sign_log userId t = \<lparr>UserId = userId, Log_Username = [], CreatedAt = t,
     Log_Type = LogTypeSign, Content = MsgSignContent 1000, Log_Quota = 1000\<rparr>"

definition store_signed :: store where
  "store_signed = store_ex\<lparr>logs :=
     [sign_log 1 1699960000, sign_log 1 1699990000, sign_log 2 1700060000,
      (sign_log 1 1700070000)\<lparr>Log_Type := LogTypeOther 2\<rparr>, sign_log 1 1700150000]\<rparr>"

text \<open>Three days later (2023-11-17 22:13:20), ten seconds into 2023-11-21, and twenty
  days later (2023-12-04 22:13:20).\<close>

definition env_later :: env where
  "env_later = env_ex\<lparr>Now := 1700259200\<rparr>"

definition env_last_day :: env where
  "env_last_day = env_ex\<lparr>Now := 1700524810\<rparr>"

definition env_after :: env where
  "env_after = env_ex\<lparr>Now := 1701728000\<rparr>"










section \<open>Calendar arithmetic\<close>

lemma mult_le_iff_le_div:
  fixes b :: int
  assumes "0 < b"
  shows "d * b \<le> x \<longleftrightarrow> d \<le> x div b"
proof
  assume "d * b \<le> x"
  then have "(d * b) div b \<le> x div b" using assms by (rule zdiv_mono1)
  then show "d \<le> x div b" using assms by simp
next
  assume "d \<le> x div b"
  then have "d * b \<le> (x div b) * b" using assms by (simp add: mult_right_mono)
  also have "\<dots> \<le> x" using assms
    by (metis div_mult_mod_eq le_add_same_cancel1 pos_mod_sign)
  finally show "d * b \<le> x" .
qed


lemma local_day_midnight: "local_day e (midnight e d) = d"
  by (simp add: local_day_def midnight_def)

lemma midnight_le_iff: "midnight e d \<le> t \<longleftrightarrow> d \<le> local_day e t"
proof -
  have "d * 86400 \<le> t + Offset e \<longleftrightarrow> d \<le> (t + Offset e) div 86400"
    using mult_le_iff_le_div [of 86400 d "t + Offset e"] by simp
  moreover have "d * 86400 - Offset e \<le> t \<longleftrightarrow> d * 86400 \<le> t + Offset e" by linarith
  ultimately show ?thesis by (simp add: local_day_def midnight_def)
qed

lemma less_midnight_iff: "t < midnight e d \<longleftrightarrow> local_day e t < d"
  using midnight_le_iff [of e d t] by linarith

lemma same_day_iff:
  "midnight e d \<le> t \<and> t \<le> midnight e d + 86399 \<longleftrightarrow> local_day e t = d"
proof -
  have "t \<le> midnight e d + 86399 \<longleftrightarrow> t < midnight e (d + 1)"
  proof -
    have "midnight e (d + 1) = midnight e d + 86400" by (simp add: midnight_def algebra_simps)
    then show ?thesis by linarith
  qed
  then show ?thesis
    using midnight_le_iff [of e d t] less_midnight_iff [of t e "d + 1"] by linarith
qed

lemma today_interval:
  "GetTodayStartTimestamp e \<le> t \<and> t \<le> GetTodayEndTimestamp e
     \<longleftrightarrow> local_day e t = local_day e (Now e)"
  using same_day_iff [of e "local_day e (Now e)" t]
  by (simp add: GetTodayStartTimestamp_def GetTodayEndTimestamp_def)

lemma AddDate_midnight: "AddDate_days (midnight e d) n = midnight e (d + n)"
  by (simp add: AddDate_days_def midnight_def algebra_simps)

lemma local_day_AddDate: "local_day e (AddDate_days t n) = local_day e t + n"
  by (simp add: AddDate_days_def local_day_def)

lemma local_day_mono: "t \<le> t' \<Longrightarrow> local_day e t \<le> local_day e t'"
  by (simp add: local_day_def zdiv_mono1)

lemma format_day_examples:
  "format_day 19675 = ''2023-11-14''" "format_day 19676 = ''2023-11-15''"
  "format_day 19677 = ''2023-11-16''" "format_day 19678 = ''2023-11-17''"
  "format_day 19679 = ''2023-11-18''" "format_day 19680 = ''2023-11-19''"
  "format_day 19681 = ''2023-11-20''" "format_day 19682 = ''2023-11-21''"
  by code_simp+

section \<open>The stores' operations keep what they do not write\<close>

lemma next_fault_frame:
  "users (snd (next_fault s)) = users s"
  "logs (snd (next_fault s)) = logs s"
  "syslog (snd (next_fault s)) = syslog s"
  by (simp_all add: next_fault_def split: list.splits)

lemma next_fault_answered:
  "answered (Suc n) s \<Longrightarrow> fst (next_fault s) = None \<and> answered n (snd (next_fault s))"
  by (auto simp: answered_def next_fault_def split: list.splits)


lemma GetUserById_frame:
  "users (snd (GetUserById userId s)) = users s"
  "logs (snd (GetUserById userId s)) = logs s"
  "syslog (snd (GetUserById userId s)) = syslog s"
  by (simp_all add: GetUserById_def next_fault_def split: list.splits option.splits)

lemma GetUserById_logs:
  "GetUserById userId s = (r, s') \<Longrightarrow> logs s' = logs s"
  using GetUserById_frame(2) [of userId s] by simp

lemma LOG_DB_Count_frame:
  "users (snd (LOG_DB_Count wh s)) = users s"
  "logs (snd (LOG_DB_Count wh s)) = logs s"
  "syslog (snd (LOG_DB_Count wh s)) = syslog s"
  by (simp_all add: LOG_DB_Count_def next_fault_def split: list.splits option.splits)

lemma LOG_DB_Find_result:
  "LOG_DB_Find wh s = (Inr ls, s') \<Longrightarrow> ls = filter wh (logs s)"
  by (auto simp: LOG_DB_Find_def next_fault_def split: list.splits option.splits)

lemma HasUserSignedToday_frame:
  "users (snd (HasUserSignedToday e userId s)) = users s"
  "logs (snd (HasUserSignedToday e userId s)) = logs s"
  "syslog (snd (HasUserSignedToday e userId s)) = syslog s"
  using LOG_DB_Count_frame
    [of "\<lambda>l. UserId l = userId \<and> Log_Type l = LogTypeSign
              \<and> CreatedAt l \<ge> GetTodayStartTimestamp e
              \<and> CreatedAt l \<le> GetTodayEndTimestamp e" s]
  by (auto simp: HasUserSignedToday_def Let_def split: prod.splits sum.splits)

lemma CheckUserSignEligibility_frame:
  "users (snd (CheckUserSignEligibility e userId s)) = users s"
  "logs (snd (CheckUserSignEligibility e userId s)) = logs s"
  "syslog (snd (CheckUserSignEligibility e userId s)) = syslog s"
  using GetUserById_frame [of userId s]
    HasUserSignedToday_frame [of e userId "snd (GetUserById userId s)"]
  by (auto simp: CheckUserSignEligibility_def Let_def split: prod.splits sum.splits)

lemmas scenario_defs = env_ex_def user_new_def user_old_def store_ex_def sign_log_def
  store_signed_def env_later_def env_last_day_def env_after_def


lemmas zone_defs = zone_day_def zone_clock_def lookup_def go_Date_def go_AddDate_def
  alpha_def omega_def

lemmas op_defs = GetUserById_def GetUsernameById_def IncreaseUserQuota_def LOG_DB_Count_def
  LOG_DB_Find_def LOG_DB_Create_def SysLog_def next_fault_def

lemmas time_defs = go_div_def local_day_def midnight_def AddDate_days_def
  GetTodayStartTimestamp_def GetTodayEndTimestamp_def

section \<open>Eligibility\<close>

text \<open>
  C1 (as the code has it).  \<^verbatim>\<open>CheckUserSignEligibility\<close> returns the verdict of the
  first failing check of this ordered list, and eligibility with the empty reason when
  none fails: feature disabled; user lookup failed; group not allowed; no registration
  time; registered for at least the window's number of days (the quotient truncated
  toward zero); the signed-today query failed; already signed today.
\<close>

theorem CheckUserSignEligibility_order:
  "fst (CheckUserSignEligibility e userId s) = first_failure (source_checks e userId s)"
  by (auto simp: CheckUserSignEligibility_def first_failure_def source_checks_def
        user_fails_def Let_def split: prod.splits sum.splits)

theorem CheckUserSignEligibility_order_witness:
  "first_failure (source_checks env_ex 2 store_ex) = (False, MsgNewUsersOnly)
   \<and> first_failure (source_checks env_ex 1 store_ex) = (True, MsgNone)"
proof -
  have "fst (CheckUserSignEligibility env_ex 2 store_ex) = (False, MsgNewUsersOnly)"
    by (simp add: CheckUserSignEligibility_def scenario_defs op_defs)
  moreover have "fst (CheckUserSignEligibility env_ex 1 store_ex) = (True, MsgNone)"
    by (simp add: CheckUserSignEligibility_def HasUserSignedToday_def scenario_defs op_defs
          time_defs)
  ultimately show ?thesis
    using CheckUserSignEligibility_order [of env_ex 2 store_ex]
      CheckUserSignEligibility_order [of env_ex 1 store_ex] by simp
qed

text \<open>
  C1 as stated, with six checks, fails: when the signed-today query faults, none of the
  six checks fails and yet the user is found ineligible, with a seventh reason.
\<close>

theorem CheckUserSignEligibility_six_checks_counterexample:
  "fst (CheckUserSignEligibility env_ex 1 (store_ex\<lparr>faults := [None, Some (StorageFault 1)]\<rparr>))
     = (False, MsgSignCheckFailed)
   \<and> first_failure (claimed_checks env_ex 1 (store_ex\<lparr>faults := [None, Some (StorageFault 1)]\<rparr>))
     = (True, MsgNone)"
  by (simp add: CheckUserSignEligibility_def HasUserSignedToday_def first_failure_def
        claimed_checks_def user_fails_def scenario_defs op_defs time_defs)

text \<open>
  C5 (as the code has it).  A user without a registration time is never eligible,
  whatever the configuration, the clock, the audit log and the storage faults.  The
  reason is that of the earliest failing check: "not enabled" when the feature is
  disabled; else "failed to fetch the user" when the lookup faults; else "group not
  allowed" when the user's group may not sign in; else "new users only".
\<close>

theorem no_registration_never_eligible:
  assumes "users s userId = Some u" and "CreatedTime u \<le> 0"
  shows "fst (CheckUserSignEligibility e userId s) =
           (False,
            if QuotaForSign e \<le> 0 then MsgSignDisabled
            else if \<not> answered 1 s then MsgGetUserFailed
            else if \<not> IsGroupSignEnabled e (Group u) then MsgGroupNotAllowed
            else MsgNewUsersOnly)"
  using assms
  by (auto simp: CheckUserSignEligibility_def GetUserById_def next_fault_def answered_def
        split: list.splits option.splits)

theorem no_registration_never_eligible_witness:
  "users store_ex 2 = Some user_old \<and> CreatedTime user_old \<le> 0
   \<and> fst (CheckUserSignEligibility env_ex 2 store_ex) = (False, MsgNewUsersOnly)
   \<and> fst (CheckUserSignEligibility (env_ex\<lparr>IsGroupSignEnabled := (\<lambda>g. False)\<rparr>) 2 store_ex)
       = (False, MsgGroupNotAllowed)
   \<and> fst (CheckUserSignEligibility env_ex 2 (store_ex\<lparr>faults := [Some (StorageFault 2)]\<rparr>))
       = (False, MsgGetUserFailed)
   \<and> fst (CheckUserSignEligibility (env_ex\<lparr>QuotaForSign := 0\<rparr>) 2 store_ex)
       = (False, MsgSignDisabled)"
proof -
  have h: "users store_ex 2 = Some user_old" "CreatedTime user_old \<le> 0"
    by (simp_all add: scenario_defs)
  have h': "users (store_ex\<lparr>faults := [Some (StorageFault 2)]\<rparr>) 2 = Some user_old"
    by (simp add: scenario_defs)
  have g: "0 < QuotaForSign env_ex" "answered 1 store_ex"
    "IsGroupSignEnabled env_ex (Group user_old)"
    "\<not> answered 1 (store_ex\<lparr>faults := [Some (StorageFault 2)]\<rparr>)"
    by (simp_all add: scenario_defs answered_def)
  show ?thesis
    using h g no_registration_never_eligible [OF h, of env_ex]
      no_registration_never_eligible [OF h, of "env_ex\<lparr>IsGroupSignEnabled := (\<lambda>g. False)\<rparr>"]
      no_registration_never_eligible [OF h' h(2), of env_ex]
      no_registration_never_eligible [OF h, of "env_ex\<lparr>QuotaForSign := 0\<rparr>"]
    by simp
qed

text \<open>
  C5 as stated fails: with the feature disabled, the reason given to a user without a
  registration time is "not enabled", not "new users only".
\<close>

theorem no_registration_reason_counterexample:
  "users store_ex 2 = Some user_old \<and> CreatedTime user_old \<le> 0
   \<and> fst (CheckUserSignEligibility (env_ex\<lparr>QuotaForSign := 0\<rparr>) 2 store_ex)
       = (False, MsgSignDisabled)"
  by (simp add: CheckUserSignEligibility_def scenario_defs)

text \<open>
  C6.  \<^verbatim>\<open>HasUserSignedToday\<close>, when its query is answered, returns whether the number
  of the user's "sign" records created in the closed interval from today's start to
  today's end is positive; it returns true only then; a record created exactly at either
  end counts; and the interval holds the current instant: it is the set of the instants
  of today.
\<close>

theorem HasUserSignedToday_count:
  "(answered 1 s \<longrightarrow>
      fst (HasUserSignedToday e userId s) = Inr (0 < length (signed_today_records e userId s)))
   \<and> (fst (HasUserSignedToday e userId s) = Inr True \<longrightarrow>
        0 < length (signed_today_records e userId s))
   \<and> (answered 1 s \<and> l \<in> set (logs s) \<and> UserId l = userId \<and> Log_Type l = LogTypeSign
        \<and> (CreatedAt l = GetTodayStartTimestamp e \<or> CreatedAt l = GetTodayEndTimestamp e)
        \<longrightarrow> fst (HasUserSignedToday e userId s) = Inr True)
   \<and> GetTodayStartTimestamp e \<le> Now e \<and> Now e \<le> GetTodayEndTimestamp e
   \<and> (GetTodayStartTimestamp e \<le> t \<and> t \<le> GetTodayEndTimestamp e
        \<longleftrightarrow> local_day e t = local_day e (Now e))"
proof -
  have a: "answered 1 s \<Longrightarrow>
      fst (HasUserSignedToday e userId s) = Inr (0 < length (signed_today_records e userId s))"
    by (auto simp: HasUserSignedToday_def LOG_DB_Count_def next_fault_def answered_def
          signed_today_records_def Let_def split: list.splits)
  have b: "fst (HasUserSignedToday e userId s) = Inr True \<Longrightarrow>
        0 < length (signed_today_records e userId s)"
    by (auto simp: HasUserSignedToday_def LOG_DB_Count_def next_fault_def
          signed_today_records_def Let_def split: list.splits option.splits)
  have le: "GetTodayStartTimestamp e \<le> GetTodayEndTimestamp e"
    by (simp add: GetTodayStartTimestamp_def GetTodayEndTimestamp_def)
  have c: "l \<in> set (signed_today_records e userId s)"
    if "l \<in> set (logs s)" "UserId l = userId" "Log_Type l = LogTypeSign"
       "CreatedAt l = GetTodayStartTimestamp e \<or> CreatedAt l = GetTodayEndTimestamp e"
    using that le by (auto simp: signed_today_records_def)
  have d: "GetTodayStartTimestamp e \<le> Now e \<and> Now e \<le> GetTodayEndTimestamp e"
    using today_interval [of e "Now e"] by simp
  show ?thesis using a b c d today_interval [of e t] by (auto simp: length_pos_if_in_set)
qed

theorem HasUserSignedToday_count_witness:
  "GetTodayStartTimestamp env_ex = 1699920000 \<and> GetTodayEndTimestamp env_ex = 1700006399
   \<and> answered 1 (store_ex\<lparr>logs := [sign_log 1 1699920000]\<rparr>)
   \<and> fst (HasUserSignedToday env_ex 1 (store_ex\<lparr>logs := [sign_log 1 1699920000]\<rparr>)) = Inr True
   \<and> fst (HasUserSignedToday env_ex 1 (store_ex\<lparr>logs := [sign_log 1 1700006399]\<rparr>)) = Inr True
   \<and> fst (HasUserSignedToday env_ex 1 (store_ex\<lparr>logs := [sign_log 1 1700006400]\<rparr>)) = Inr False"
proof -
  have t: "GetTodayStartTimestamp env_ex = 1699920000" "GetTodayEndTimestamp env_ex = 1700006399"
    by (simp_all add: time_defs env_ex_def)
  have a: "answered 1 (store_ex\<lparr>logs := ls\<rparr>)" for ls
    by (simp add: answered_def store_ex_def)
  have r: "signed_today_records env_ex 1 (store_ex\<lparr>logs := [sign_log 1 1700006400]\<rparr>) = []"
    by (simp add: signed_today_records_def t sign_log_def)
  show ?thesis
    using t a
      HasUserSignedToday_count [where s = "store_ex\<lparr>logs := [sign_log 1 1699920000]\<rparr>"
        and e = env_ex and userId = 1 and l = "sign_log 1 1699920000" and t = 1699920000]
      HasUserSignedToday_count [where s = "store_ex\<lparr>logs := [sign_log 1 1700006399]\<rparr>"
        and e = env_ex and userId = 1 and l = "sign_log 1 1700006399" and t = 1700006399]
      HasUserSignedToday_count [where s = "store_ex\<lparr>logs := [sign_log 1 1700006400]\<rparr>"
        and e = env_ex and userId = 1 and l = "sign_log 1 1700006400" and t = 1700006400]
    by (simp add: r signed_today_records_def sign_log_def local_day_def env_ex_def)
qed

section \<open>Granting\<close>

text \<open>
  C2.  When \<^verbatim>\<open>DoSign\<close> is called for a user that \<^verbatim>\<open>CheckUserSignEligibility\<close> finds
  ineligible, it returns a result (not an error) with \<open>Success = False\<close>, the reason of
  the eligibility check and quota 0, and it writes nothing: the user table, the audit log
  and the system log are what they were.
\<close>

theorem DoSign_ineligible:
  assumes "\<not> fst (fst (CheckUserSignEligibility e userId s))"
  shows "fst (DoSign e userId s) =
           Inr \<lparr>Success = False, Message = snd (fst (CheckUserSignEligibility e userId s)),
                Result_Quota = 0\<rparr>
         \<and> users (snd (DoSign e userId s)) = users s
         \<and> logs (snd (DoSign e userId s)) = logs s
         \<and> syslog (snd (DoSign e userId s)) = syslog s"
  using assms CheckUserSignEligibility_frame [of e userId s]
  by (auto simp: DoSign_def split: prod.splits)

theorem DoSign_ineligible_witness:
  "\<not> fst (fst (CheckUserSignEligibility env_ex 2 store_ex))
   \<and> fst (DoSign env_ex 2 store_ex) =
       Inr \<lparr>Success = False, Message = MsgNewUsersOnly, Result_Quota = 0\<rparr>
   \<and> users (snd (DoSign env_ex 2 store_ex)) = users store_ex
   \<and> logs (snd (DoSign env_ex 2 store_ex)) = []
   \<and> syslog (snd (DoSign env_ex 2 store_ex)) = []"
proof -
  have c: "fst (CheckUserSignEligibility env_ex 2 store_ex) = (False, MsgNewUsersOnly)"
    by (simp add: CheckUserSignEligibility_def scenario_defs op_defs)
  then have h: "\<not> fst (fst (CheckUserSignEligibility env_ex 2 store_ex))" by simp
  have "logs store_ex = []" "syslog store_ex = []" by (simp_all add: store_ex_def)
  then show ?thesis using h c DoSign_ineligible [OF h] by simp
qed

text \<open>
  C3.  When the user is eligible, the balance increase succeeds and the write of the audit
  record fails with \<open>err\<close> (whatever the username lookup \<open>f\<close> did), \<^verbatim>\<open>DoSign\<close> still
  returns success with the granted quota; the balance keeps its increase, the audit log
  has no new record, and the failure is appended to the system log.
\<close>

theorem DoSign_audit_write_fails:
  assumes elig: "CheckUserSignEligibility e userId s = ((True, r), s1)"
    and script: "faults s1 = f # None # Some err # rest"
    and user: "users s userId = Some u"
  shows "fst (DoSign e userId s) =
           Inr \<lparr>Success = True, Message = MsgSignSuccess (QuotaForSign e),
                Result_Quota = QuotaForSign e\<rparr>
         \<and> users (snd (DoSign e userId s)) =
             (users s)(userId \<mapsto> u\<lparr>Quota := Quota u + QuotaForSign e\<rparr>)
         \<and> logs (snd (DoSign e userId s)) = logs s
         \<and> syslog (snd (DoSign e userId s)) = syslog s @ [FailedToRecordSignLog err]"
proof -
  have fr: "users s1 = users s" "logs s1 = logs s" "syslog s1 = syslog s"
    using CheckUserSignEligibility_frame [of e userId s] elig by simp_all
  show ?thesis
    using elig script user fr
    by (cases f)
       (simp_all add: DoSign_def GetUsernameById_def IncreaseUserQuota_def LOG_DB_Create_def
          SysLog_def next_fault_def Let_def)
qed

theorem DoSign_audit_write_fails_witness:
  "CheckUserSignEligibility env_ex 1 (store_ex\<lparr>faults := [None, None, None, None, Some (StorageFault 7)]\<rparr>)
     = ((True, MsgNone), store_ex\<lparr>faults := [None, None, Some (StorageFault 7)]\<rparr>)
   \<and> fst (DoSign env_ex 1 (store_ex\<lparr>faults := [None, None, None, None, Some (StorageFault 7)]\<rparr>))
     = Inr \<lparr>Success = True, Message = MsgSignSuccess 1000, Result_Quota = 1000\<rparr>
   \<and> users (snd (DoSign env_ex 1 (store_ex\<lparr>faults := [None, None, None, None, Some (StorageFault 7)]\<rparr>))) 1
     = Some (user_new\<lparr>Quota := 1005\<rparr>)
   \<and> logs (snd (DoSign env_ex 1 (store_ex\<lparr>faults := [None, None, None, None, Some (StorageFault 7)]\<rparr>))) = []
   \<and> syslog (snd (DoSign env_ex 1 (store_ex\<lparr>faults := [None, None, None, None, Some (StorageFault 7)]\<rparr>)))
     = [FailedToRecordSignLog (StorageFault 7)]"
proof -
  let ?s = "store_ex\<lparr>faults := [None, None, None, None, Some (StorageFault 7)]\<rparr>"
  let ?s1 = "store_ex\<lparr>faults := [None, None, Some (StorageFault 7)]\<rparr>"
  have elig: "CheckUserSignEligibility env_ex 1 ?s = ((True, MsgNone), ?s1)"
    by (simp add: CheckUserSignEligibility_def HasUserSignedToday_def scenario_defs op_defs
          time_defs)
  have script: "faults ?s1 = None # None # Some (StorageFault 7) # []" by simp
  have user: "users ?s 1 = Some user_new" by (simp add: store_ex_def)
  have q: "Quota user_new + QuotaForSign env_ex = 1005" "QuotaForSign env_ex = 1000"
    by (simp_all add: scenario_defs)
  have "logs ?s = []" "syslog ?s = []" by (simp_all add: store_ex_def)
  then show ?thesis
    using elig q DoSign_audit_write_fails [OF elig script user] by simp
qed

section \<open>Storage faults\<close>

lemma GetUserSignList_faults:
  assumes "users s userId = Some u" and "k < 2"
    and "faults s = replicate k None @ Some err # rest"
  shows "fst (GetUserSignList e userId s) = Inl err"
proof -
  have "k = 0 \<or> k = 1" using assms(2) by auto
  then show ?thesis
    using assms(1,3)
    by (auto simp: GetUserSignList_def GetUserById_def LOG_DB_Find_def next_fault_def Let_def)
qed

lemma GetUserSignInfo_faults:
  assumes "0 < QuotaForSign e" and "users s userId = Some u"
    and "IsGroupSignEnabled e (Group u)" and "0 < CreatedTime u" and "k < 5"
    and "faults s = replicate k None @ Some err # rest"
  shows "fst (GetUserSignInfo e userId s) = Inl err"
proof -
  have "k = 0 \<or> k = 1 \<or> k = 2 \<or> k = 3 \<or> k = 4" using assms(5) by auto
  then show ?thesis
    using assms(1-4,6)
    by (auto simp: GetUserSignInfo_def GetUserSignList_def HasUserSignedToday_def
          GetUserById_def LOG_DB_Find_def LOG_DB_Count_def next_fault_def Let_def
          numeral_eq_Suc)
qed

lemma first_lookup_fault:
  assumes "faults s = Some err # rest"
  shows "fst (GetUserSignList e userId s) = Inl err"
    and "0 < QuotaForSign e \<Longrightarrow> fst (GetUserSignInfo e userId s) = Inl err"
  using assms
  by (auto simp: GetUserSignInfo_def GetUserSignList_def GetUserById_def next_fault_def Let_def)

lemma DoSign_error_iff:
  "fst (DoSign e userId s) = Inl x \<longleftrightarrow>
     fst (fst (CheckUserSignEligibility e userId s))
     \<and> (\<exists>f err rest. faults (snd (CheckUserSignEligibility e userId s)) = f # Some err # rest
            \<and> x = IncreaseQuotaFailed err)"
  by (auto simp: DoSign_def GetUsernameById_def IncreaseUserQuota_def LOG_DB_Create_def
        next_fault_def Let_def split: prod.splits sum.splits option.splits list.splits)

lemma GetUserSignList_answered:
  assumes "users s userId = Some u" and "faults s = None # None # rest"
  shows "\<exists>xs. GetUserSignList e userId s = (Inr xs, s\<lparr>faults := rest\<rparr>)"
  using assms
  by (simp add: GetUserSignList_def GetUserById_def LOG_DB_Find_def next_fault_def Let_def)

text \<open>
  C4 (as the code has it).  A fault of the first storage operation of
  \<^verbatim>\<open>GetUserSignList\<close> or of an enabled \<^verbatim>\<open>GetUserSignInfo\<close> is returned as the error; so
  is a fault of either of the two storage operations of \<^verbatim>\<open>GetUserSignList\<close>, and of any
  of the five storage operations that \<^verbatim>\<open>GetUserSignInfo\<close> runs before its final
  eligibility check (user lookup, total count, signed-today count, and the calendar's
  two).  \<^verbatim>\<open>DoSign\<close> returns an error exactly when the user is eligible and the balance
  increase (the second storage operation after the eligibility check) faults.
\<close>

theorem storage_fault_propagation:
  "(faults s = Some err # rest \<longrightarrow>
      fst (GetUserSignList e userId s) = Inl err
      \<and> (0 < QuotaForSign e \<longrightarrow> fst (GetUserSignInfo e userId s) = Inl err))
   \<and> (users s userId = Some u \<and> k < 2 \<and> faults s = replicate k None @ Some err # rest \<longrightarrow>
        fst (GetUserSignList e userId s) = Inl err)
   \<and> (0 < QuotaForSign e \<and> users s userId = Some u \<and> IsGroupSignEnabled e (Group u)
        \<and> 0 < CreatedTime u \<and> k < 5 \<and> faults s = replicate k None @ Some err # rest \<longrightarrow>
        fst (GetUserSignInfo e userId s) = Inl err)
   \<and> (fst (DoSign e userId s) = Inl x \<longleftrightarrow>
        fst (fst (CheckUserSignEligibility e userId s))
        \<and> (\<exists>f err rest.
              faults (snd (CheckUserSignEligibility e userId s)) = f # Some err # rest
              \<and> x = IncreaseQuotaFailed err))"
  using first_lookup_fault [of s err rest e userId]
    GetUserSignList_faults [of s userId u k err rest e]
    GetUserSignInfo_faults [of e s userId u k err rest]
    DoSign_error_iff [of e userId s x]
  by blast

theorem storage_fault_propagation_witness:
  "fst (GetUserSignList env_ex 1 (store_ex\<lparr>faults := [None, Some (StorageFault 4)]\<rparr>))
     = Inl (StorageFault 4)
   \<and> fst (GetUserSignInfo env_ex 1
            (store_ex\<lparr>faults := [None, None, None, None, Some (StorageFault 5)]\<rparr>))
     = Inl (StorageFault 5)
   \<and> fst (DoSign env_ex 1 (store_ex\<lparr>faults := [None, None, None, Some (StorageFault 6)]\<rparr>))
     = Inl (IncreaseQuotaFailed (StorageFault 6))"
proof -
  let ?s3 = "store_ex\<lparr>faults := [None, None, None, Some (StorageFault 6)]\<rparr>"
  have u: "users (store_ex\<lparr>faults := fs\<rparr>) 1 = Some user_new" for fs
    by (simp add: store_ex_def)
  have c: "0 < QuotaForSign env_ex" "IsGroupSignEnabled env_ex (Group user_new)"
    "0 < CreatedTime user_new"
    by (simp_all add: scenario_defs)
  have r1: "[None, Some (StorageFault 4)] = replicate 1 None @ Some (StorageFault 4) # []"
    by simp
  have r4: "[None, None, None, None, Some (StorageFault 5)]
              = replicate 4 None @ Some (StorageFault 5) # []"
    by (simp add: numeral_eq_Suc)
  have elig: "CheckUserSignEligibility env_ex 1 ?s3
                = ((True, MsgNone), store_ex\<lparr>faults := [None, Some (StorageFault 6)]\<rparr>)"
    by (simp add: CheckUserSignEligibility_def HasUserSignedToday_def scenario_defs op_defs
          time_defs)
  show ?thesis
    using u c r1 r4 elig
      storage_fault_propagation [where s = "store_ex\<lparr>faults := [None, Some (StorageFault 4)]\<rparr>"
        and e = env_ex and userId = 1 and u = user_new and k = 1
        and err = "StorageFault 4" and rest = "[]"]
      storage_fault_propagation
        [where s = "store_ex\<lparr>faults := [None, None, None, None, Some (StorageFault 5)]\<rparr>"
        and e = env_ex and userId = 1 and u = user_new and k = 4
        and err = "StorageFault 5" and rest = "[]"]
      storage_fault_propagation [where s = ?s3 and e = env_ex and userId = 1
        and x = "IncreaseQuotaFailed (StorageFault 6)"]
    by simp
qed

text \<open>
  C4 as stated fails: a fault of the user lookup inside \<^verbatim>\<open>DoSign\<close> is not returned as
  an error but as a not-granted result with a reason; and a fault of the user lookup of
  the final eligibility check of \<^verbatim>\<open>GetUserSignInfo\<close> (its sixth storage operation) is
  not returned as an error either.
\<close>

theorem storage_fault_not_propagated_counterexample:
  "fst (GetUserById 1 (store_ex\<lparr>faults := [Some (StorageFault 1)]\<rparr>)) = Inl (StorageFault 1)
   \<and> fst (DoSign env_ex 1 (store_ex\<lparr>faults := [Some (StorageFault 1)]\<rparr>))
       = Inr \<lparr>Success = False, Message = MsgGetUserFailed, Result_Quota = 0\<rparr>
   \<and> \<not> isl (fst (GetUserSignInfo env_ex 1
         (store_ex\<lparr>faults := [None, None, None, None, None, Some (StorageFault 1)]\<rparr>)))"
proof -
  have a: "fst (GetUserById 1 (store_ex\<lparr>faults := [Some (StorageFault 1)]\<rparr>))
             = Inl (StorageFault 1)"
    by (simp add: op_defs)
  have b: "fst (DoSign env_ex 1 (store_ex\<lparr>faults := [Some (StorageFault 1)]\<rparr>))
       = Inr \<lparr>Success = False, Message = MsgGetUserFailed, Result_Quota = 0\<rparr>"
    by (simp add: DoSign_def CheckUserSignEligibility_def scenario_defs op_defs)
  let ?s3 = "store_ex\<lparr>faults := [None, None, Some (StorageFault 1)]\<rparr>"
  have "users ?s3 1 = Some user_new" by (simp add: store_ex_def)
  moreover have "faults ?s3 = None # None # [Some (StorageFault 1)]" by simp
  ultimately obtain xs where
    l: "GetUserSignList env_ex 1 ?s3 = (Inr xs, ?s3\<lparr>faults := [Some (StorageFault 1)]\<rparr>)"
    using GetUserSignList_answered [of ?s3 1 user_new "[Some (StorageFault 1)]" env_ex]
    by blast
  note l' = l [unfolded scenario_defs, simplified]
  have c: "\<not> isl (fst (GetUserSignInfo env_ex 1
         (store_ex\<lparr>faults := [None, None, None, None, None, Some (StorageFault 1)]\<rparr>)))"
    by (simp add: GetUserSignInfo_def HasUserSignedToday_def CheckUserSignEligibility_def
          scenario_defs op_defs time_defs l' Let_def)
  show ?thesis using a b c by simp
qed

section \<open>The calendar\<close>

lemma sign_loop_days:
  "sign_loop e m endTime (midnight e d) =
     map (\<lambda>d'. \<lparr>Date = format_day d', Signed = map_index m (format_day d')\<rparr>)
       [d .. local_day e endTime]"
proof (induction "nat (local_day e endTime - d + 1)" arbitrary: d)
  case 0
  then have "local_day e endTime < d" by simp
  then have "midnight e d > endTime" using midnight_le_iff [of e d endTime] by simp
  then show ?case using \<open>local_day e endTime < d\<close>
    by (subst sign_loop.simps) simp
next
  case (Suc n)
  then have le: "d \<le> local_day e endTime" by simp
  then have "\<not> midnight e d > endTime" using midnight_le_iff [of e d endTime] by simp
  moreover have "n = nat (local_day e endTime - (d + 1) + 1)" using Suc.hyps(2) by simp
  then have "sign_loop e m endTime (midnight e (d + 1)) =
     map (\<lambda>d'. \<lparr>Date = format_day d', Signed = map_index m (format_day d')\<rparr>)
       [d + 1 .. local_day e endTime]" by (rule Suc.hyps(1))
  moreover have "[d .. local_day e endTime] = d # [d + 1 .. local_day e endTime]"
    using le by (rule upto_rec1)
  ultimately show ?case
    by (subst sign_loop.simps)
       (simp add: AddDate_midnight Format_date_def local_day_midnight Let_def)
qed

lemma sign_loop_entry:
  "x \<in> set (sign_loop e m endTime currentDate) \<Longrightarrow> Signed x = map_index m (Date x)"
proof (induction e m endTime currentDate rule: sign_loop.induct)
  case (1 e m endTime currentDate)
  show ?case
  proof (cases "currentDate > endTime")
    case True
    then show ?thesis using "1.prems" by (subst (asm) sign_loop.simps) simp
  next
    case False
    then have "x = \<lparr>Date = Format_date e currentDate,
                     Signed = map_index m (Format_date e currentDate)\<rparr>
               \<or> x \<in> set (sign_loop e m endTime (AddDate_days currentDate 1))"
      using "1.prems" by (subst (asm) sign_loop.simps) (simp add: Let_def)
    then show ?thesis using "1.IH" [OF False refl] by auto
  qed
qed

lemma signedDates_of_index:
  "map_index (signedDates_of e ls m) k \<longleftrightarrow>
     map_index m k \<or> (\<exists>l \<in> set ls. Format_date e (CreatedAt l) = k)"
  by (induction ls arbitrary: m) (auto simp: map_index_def)

lemma signedDates_of_sign_dates:
  "map_index (signedDates_of e
      (filter (\<lambda>l. UserId l = userId \<and> Log_Type l = LogTypeSign) (logs s)) Map.empty) k
   \<longleftrightarrow> k \<in> sign_dates e userId s"
  unfolding signedDates_of_index sign_dates_def by (auto simp: map_index_def)

lemma end_time_day:
  "local_day e
     (if AddDate_days startTime (SignInDays e)
           < midnight e (local_day e (Now e)) + (23 * 3600 + 59 * 60 + 59)
      then AddDate_days startTime (SignInDays e)
      else midnight e (local_day e (Now e)) + (23 * 3600 + 59 * 60 + 59))
   = min (local_day e (Now e)) (local_day e startTime + SignInDays e)"
proof -
  define endTime0 where "endTime0 = midnight e (local_day e (Now e)) + (23 * 3600 + 59 * 60 + 59)"
  define signDeadline where "signDeadline = AddDate_days startTime (SignInDays e)"
  have d0: "local_day e endTime0 = local_day e (Now e)"
    using same_day_iff [of e "local_day e (Now e)" endTime0] by (simp add: endTime0_def)
  have dd: "local_day e signDeadline = local_day e startTime + SignInDays e"
    by (simp add: signDeadline_def local_day_AddDate)
  have "local_day e (if signDeadline < endTime0 then signDeadline else endTime0)
           = min (local_day e (Now e)) (local_day e startTime + SignInDays e)"
  proof (cases "signDeadline < endTime0")
    case True
    then have "local_day e signDeadline \<le> local_day e endTime0"
      using local_day_mono [of signDeadline endTime0 e] by simp
    then show ?thesis using True d0 dd by simp
  next
    case False
    then have "local_day e endTime0 \<le> local_day e signDeadline"
      using local_day_mono [of endTime0 signDeadline e] by simp
    then show ?thesis using False d0 dd by simp
  qed
  then show ?thesis by (simp only: endTime0_def signDeadline_def)
qed

lemma GetUserSignList_days:
  assumes user: "users s userId = Some u" and ok: "answered 2 s"
  shows "fst (GetUserSignList e userId s) =
           Inr (map (\<lambda>d. \<lparr>Date = format_day d, Signed = format_day d \<in> sign_dates e userId s\<rparr>)
                  [start_date e u .. end_date e u])"
proof -
  have two: "answered (Suc (Suc 0)) s" using ok by (simp add: numeral_2_eq_2)
  let ?s1 = "snd (next_fault s)"
  have n1: "fst (next_fault s) = None" and a1: "answered (Suc 0) ?s1"
    using next_fault_answered [OF two] by simp_all
  have n2: "fst (next_fault ?s1) = None"
    using next_fault_answered [OF a1] by simp
  have g: "GetUserById userId s = (Inr u, ?s1)"
    using n1 user next_fault_frame(1) [of s]
    by (auto simp: GetUserById_def split: prod.splits)
  let ?wh = "\<lambda>l. UserId l = userId \<and> Log_Type l = LogTypeSign"
  have f: "LOG_DB_Find ?wh ?s1 = (Inr (filter ?wh (logs s)), snd (next_fault ?s1))"
    using n2 next_fault_frame(2) [of s] next_fault_frame(2) [of ?s1]
    by (auto simp: LOG_DB_Find_def split: prod.splits)
  define startTime where
    "startTime = (if CreatedTime u > 0 then CreatedTime u else AddDate_days (Now e) (- 30))"
  define endTime where
    "endTime = (if AddDate_days startTime (SignInDays e)
                    < midnight e (local_day e (Now e)) + (23 * 3600 + 59 * 60 + 59)
                then AddDate_days startTime (SignInDays e)
                else midnight e (local_day e (Now e)) + (23 * 3600 + 59 * 60 + 59))"
  have sd: "local_day e startTime = start_date e u"
    by (simp add: startTime_def start_date_def local_day_AddDate)
  have "local_day e endTime = min (local_day e (Now e)) (local_day e startTime + SignInDays e)"
    unfolding endTime_def by (rule end_time_day)
  then have et: "local_day e endTime = end_date e u"
    by (simp add: end_date_def sd)
  have "fst (GetUserSignList e userId s) =
          Inr (sign_loop e (signedDates_of e (filter ?wh (logs s)) Map.empty) endTime
                 (midnight e (local_day e startTime)))"
    by (simp add: GetUserSignList_def g f startTime_def endTime_def Let_def)
  then show ?thesis
    by (simp add: sign_loop_days signedDates_of_sign_dates sd et)
qed













text \<open>The calendars of the scenarios.\<close>

lemma scenario_days:
  "start_date env_ex user_new = 19675" "end_date env_ex user_new = 19675"
  "start_date env_later user_new = 19675" "end_date env_later user_new = 19678"
  "start_date env_last_day user_new = 19675" "end_date env_last_day user_new = 19682"
  "start_date env_after user_new = 19675" "end_date env_after user_new = 19682"
  by (simp_all add: start_date_def end_date_def local_day_def scenario_defs)

lemma scenario_sign_dates:
  "sign_dates e 1 store_ex = {}"
  "sign_dates env_later 1 store_signed = {''2023-11-14'', ''2023-11-16''}"
  by (auto simp: sign_dates_def Format_date_def local_day_def scenario_defs
        format_day_examples)

lemma scenario_stores:
  "users store_ex 1 = Some user_new" "answered 2 store_ex"
  "users store_signed 1 = Some user_new" "answered 2 store_signed"
  by (simp_all add: answered_def scenario_defs)

lemma calendar_later:
  "fst (GetUserSignList env_later 1 store_signed) =
     Inr [\<lparr>Date = ''2023-11-14'', Signed = True\<rparr>, \<lparr>Date = ''2023-11-15'', Signed = False\<rparr>,
          \<lparr>Date = ''2023-11-16'', Signed = True\<rparr>, \<lparr>Date = ''2023-11-17'', Signed = False\<rparr>]"
  using GetUserSignList_days [OF scenario_stores(3,4), of env_later]
  by (simp add: scenario_days scenario_sign_dates format_day_examples)




lemma GetUserSignList_returns_iff:
  "\<not> isl (fst (GetUserSignList e userId s)) \<longleftrightarrow> users s userId \<noteq> None \<and> answered 2 s"
  by (auto simp: GetUserSignList_def GetUserById_def LOG_DB_Find_def next_fault_def
        answered_def Let_def numeral_2_eq_2
        split: list.splits option.splits)




text \<open>
  C8.  In every calendar that \<^verbatim>\<open>GetUserSignList\<close> returns, an entry is flagged as signed
  exactly when its date is the date of some "sign" record of the user in the audit log:
  such a date is flagged, no other date is, and several records of one date make one
  date.
\<close>

theorem calendar_round_trip:
  assumes "fst (GetUserSignList e userId s) = Inr xs" and "x \<in> set xs"
  shows "Signed x \<longleftrightarrow> Date x \<in> sign_dates e userId s"
proof -
  let ?wh = "\<lambda>l. UserId l = userId \<and> Log_Type l = LogTypeSign"
  have "\<forall>x\<in>set xs.
          Signed x = map_index (signedDates_of e (filter ?wh (logs s)) Map.empty) (Date x)"
    using assms(1)
    by (auto simp: GetUserSignList_def Let_def
          split: prod.splits sum.splits if_splits
          dest!: LOG_DB_Find_result GetUserById_logs sign_loop_entry)
  then show ?thesis
    using assms(2) signedDates_of_sign_dates by blast
qed

theorem calendar_round_trip_witness:
  "fst (GetUserSignList env_later 1 store_signed) =
     Inr [\<lparr>Date = ''2023-11-14'', Signed = True\<rparr>, \<lparr>Date = ''2023-11-15'', Signed = False\<rparr>,
          \<lparr>Date = ''2023-11-16'', Signed = True\<rparr>, \<lparr>Date = ''2023-11-17'', Signed = False\<rparr>]
   \<and> ''2023-11-14'' \<in> sign_dates env_later 1 store_signed
   \<and> ''2023-11-15'' \<notin> sign_dates env_later 1 store_signed"
proof -
  let ?xs = "[\<lparr>Date = ''2023-11-14'', Signed = True\<rparr>, \<lparr>Date = ''2023-11-15'', Signed = False\<rparr>,
          \<lparr>Date = ''2023-11-16'', Signed = True\<rparr>, \<lparr>Date = ''2023-11-17'', Signed = False\<rparr>]"
  have a: "\<lparr>Date = ''2023-11-14'', Signed = True\<rparr> \<in> set ?xs"
    and b: "\<lparr>Date = ''2023-11-15'', Signed = False\<rparr> \<in> set ?xs"
    by simp_all
  show ?thesis
    using calendar_later calendar_round_trip [OF calendar_later a]
      calendar_round_trip [OF calendar_later b]
    by simp
qed




section \<open>The info view\<close>

text \<open>
  C9.  When the feature is disabled (the configured reward quota is at most 0),
  \<^verbatim>\<open>GetUserSignInfo\<close> returns at once: a view with \<open>Enabled = False\<close> and the "not
  enabled" message, the two configuration values, and every user-derived field at its
  zero value.  The store comes back as it was, fault script included: no storage
  operation ran.
\<close>

theorem GetUserSignInfo_disabled:
  assumes "QuotaForSign e \<le> 0"
  shows "GetUserSignInfo e userId s =
           (Inr \<lparr>Enabled = False, QuotaPerSign = QuotaForSign e,
                 Info_SignInDays = SignInDays e, SignedToday = False, CanSign = False,
                 Info_Message = MsgSignDisabled, RemainingDays = 0, TotalSignDays = 0,
                 SignList = []\<rparr>, s)"
  using assms by (simp add: GetUserSignInfo_def Let_def)

theorem GetUserSignInfo_disabled_witness:
  "QuotaForSign (env_ex\<lparr>QuotaForSign := 0\<rparr>) \<le> 0
   \<and> GetUserSignInfo (env_ex\<lparr>QuotaForSign := 0\<rparr>) 1 (store_ex\<lparr>faults := [Some (StorageFault 3)]\<rparr>) =
       (Inr \<lparr>Enabled = False, QuotaPerSign = 0, Info_SignInDays = 7, SignedToday = False,
             CanSign = False, Info_Message = MsgSignDisabled, RemainingDays = 0,
             TotalSignDays = 0, SignList = []\<rparr>,
        store_ex\<lparr>faults := [Some (StorageFault 3)]\<rparr>)"
proof -
  have h: "QuotaForSign (env_ex\<lparr>QuotaForSign := 0\<rparr>) \<le> 0" by simp
  show ?thesis
    using h GetUserSignInfo_disabled [OF h, of 1 "store_ex\<lparr>faults := [Some (StorageFault 3)]\<rparr>"]
    by (simp add: env_ex_def)
qed

end
